theory Spec2Isabelle
  imports Complex_Main "HOL-Library.Word" "HOL-Library.AList"
begin

section \<open>Data model\<close>

text \<open>
  Go's \<open>time.Duration\<close> is a signed 64-bit count of nanoseconds and Go's \<open>int\<close> is a
  signed 64-bit integer. Both are modelled as \<open>int\<close>; where the source negates or
  subtracts, the two's complement wrap-around is written out with \<open>wrap64\<close>.
  \<open>float64\<close> is idealised as \<open>real\<close>.
\<close>

type_synonym duration = int

definition int64 :: "int \<Rightarrow> bool" where
  "int64 x = (- (2 ^ 63) \<le> x \<and> x < 2 ^ 63)"

definition wrap64 :: "int \<Rightarrow> int" where
  "wrap64 x = (x + 2 ^ 63) mod 2 ^ 64 - 2 ^ 63"

definition Nanosecond :: duration where "Nanosecond = 1"
definition Millisecond :: duration where "Millisecond = 1000000"
definition Second :: duration where "Second = 1000000000"
definition Hour :: duration where "Hour = 3600000000000"

text \<open>\<open>Duration.Seconds()\<close> and the conversion \<open>time.Duration(x)\<close> of a float, which
  truncates towards zero.\<close>

definition Seconds :: "duration \<Rightarrow> real" where
  "Seconds d = real_of_int d / 1000000000"

definition Duration_of_float :: "real \<Rightarrow> duration" where
  "Duration_of_float x = (if 0 \<le> x then \<lfloor>x\<rfloor> else \<lceil>x\<rceil>)"

text \<open>The errors of the modelled functions. \<open>QuerierError\<close> stands for any error of the
  wire client, \<open>ErrCtx\<close> for \<open>ctx.Err()\<close>.\<close>

datatype error =
    QuerierError string
  | ErrCtx
  | ErrNoServers
  | ErrAlreadyRunning
  | ErrNoResults
  | ErrOpenState
  | ErrTooManyRequests
  | ErrCircuitOpen string error
  | ErrLookup string
  | ErrResolvePool
  | PanicSliceBounds
  | PanicIndexOutOfRange

record Response =
  Server :: string
  Offset :: duration
  RTT :: duration
  Stratum :: "8 word"
  ReferenceTime :: int
  RootDelay :: duration
  RootDispersion :: duration
  RootDistance :: duration
  Precision :: duration
  LeapIndicator :: "8 word"
  Poll :: duration
  ValidateError :: "string option"
  ReferenceID :: "32 word"
  KissCode :: string

definition IsKissOfDeath :: "Response \<Rightarrow> bool" where
  "IsKissOfDeath r = (KissCode r \<noteq> '''')"

definition IsValid :: "Response \<Rightarrow> bool" where
  "IsValid r = (ValidateError r = None)"

definition AbsDuration :: "duration \<Rightarrow> duration" where
  "AbsDuration d = (if d < 0 then wrap64 (- d) else d)"

section \<open>Statistics\<close>

text \<open>
  \<open>CalculateStatistics\<close> copies the offsets and round-trip times, in seconds, into
  buffers taken from a pool; the model maps over the responses instead.
  \<open>sort.Float64s\<close> is \<open>sort\<close>. The helpers \<open>min\<close> and \<open>max\<close> of the source are
  \<open>min_values\<close> and \<open>max_values\<close> here.
\<close>

record Statistics =
  MedianOffset :: duration
  MeanOffset :: duration
  StdDevOffset :: duration
  Jitter :: duration
  Asymmetry :: duration
  SamplesCount :: int
  PacketLossRatio :: real

definition zero_Statistics :: Statistics where
  "zero_Statistics = \<lparr>MedianOffset = 0, MeanOffset = 0, StdDevOffset = 0, Jitter = 0,
     Asymmetry = 0, SamplesCount = 0, PacketLossRatio = 0\<rparr>"

definition calculatePacketLoss :: "int \<Rightarrow> int \<Rightarrow> real" where
  "calculatePacketLoss received totalN =
     (if totalN = 0 then 0
      else let lost = wrap64 (totalN - received);
               lost = (if lost < 0 then 0 else lost)
           in real_of_int lost / real_of_int totalN)"

definition median :: "real list \<Rightarrow> real" where
  "median values =
     (if length values = 0 then 0
      else let sorted = sort values; n = length sorted
           in if n mod 2 = 0 then (sorted ! (n div 2 - 1) + sorted ! (n div 2)) / 2
              else sorted ! (n div 2))"

definition mean :: "real list \<Rightarrow> real" where
  "mean values =
     (if length values = 0 then 0
      else foldl (\<lambda>sum v. sum + v) 0 values / real (length values))"

definition stdDev :: "real list \<Rightarrow> real" where
  "stdDev values =
     (if length values \<le> 1 then 0
      else let m = mean values;
               sumSquaredDiff = foldl (\<lambda>s v. s + (v - m) * (v - m)) 0 values;
               variance = sumSquaredDiff / real (length values - 1)
           in sqrt variance)"

definition min_values :: "real list \<Rightarrow> real" where
  "min_values values =
     (case values of [] \<Rightarrow> 0
      | v0 # rest \<Rightarrow> foldl (\<lambda>minVal v. if v < minVal then v else minVal) v0 rest)"

definition max_values :: "real list \<Rightarrow> real" where
  "max_values values =
     (case values of [] \<Rightarrow> 0
      | v0 # rest \<Rightarrow> foldl (\<lambda>maxVal v. if v > maxVal then v else maxVal) v0 rest)"

definition CalculateStatistics :: "Response list \<Rightarrow> int \<Rightarrow> Statistics" where
  "CalculateStatistics responses totalSamples =
     (if length responses = 0 then zero_Statistics\<lparr>PacketLossRatio := 1\<rparr>
      else let offsets = map (\<lambda>resp. Seconds (Offset resp)) responses;
               rtts = map (\<lambda>resp. Seconds (RTT resp)) responses
           in \<lparr>MedianOffset = Duration_of_float (median offsets * real_of_int Second),
               MeanOffset = Duration_of_float (mean offsets * real_of_int Second),
               StdDevOffset = Duration_of_float (stdDev offsets * real_of_int Second),
               Jitter = Duration_of_float (stdDev rtts * real_of_int Second),
               Asymmetry = (if length rtts \<ge> 2
                  then Duration_of_float ((max_values rtts - min_values rtts) * real_of_int Second)
                  else 0),
               SamplesCount = int (length responses),
               PacketLossRatio = calculatePacketLoss (int (length responses)) totalSamples\<rparr>)"

section \<open>Worker pool\<close>

text \<open>
  \<open>Execute\<close> starts goroutines; what they put on the results channel depends on the
  scheduler and on when the context is cancelled. That outcome is a parameter of the
  model: \<open>submit_ctx_done\<close> says whether a \<open>select\<close> of the submit loop took
  \<open>ctx.Done()\<close>, and \<open>arrivals\<close> lists, in order of arrival on \<open>resultsCh\<close>, the jobs
  whose worker sent a result, each with what the worker did: it saw the context done
  when it picked the job up, or it ran \<open>processJob\<close> and sent what \<open>QueryMultiple\<close>
  returned. A job whose result was dropped, or that no worker picked up, is not listed.
  The Go map of results is an association list with one pair for each server name. The
  flag \<open>running\<close> is set for the duration of the call and cleared by the deferred
  function, so the model reads it and returns only the result.
\<close>

record JobResult =
  jr_Server :: string
  Responses :: "Response list"
  Error :: "error option"
  Duration :: duration

datatype job_event =
    CtxDoneAtPickup
  | Processed "Response list" "error option" duration

record schedule =
  submit_ctx_done :: bool
  arrivals :: "(string \<times> job_event) list"

record WorkerPool =
  wp_size :: int
  running :: bool

definition NewWorkerPool :: "int \<Rightarrow> WorkerPool" where
  "NewWorkerPool sz = \<lparr>wp_size = (if sz \<le> 0 then 1 else sz), running = False\<rparr>"

fun worker :: "string \<times> job_event \<Rightarrow> JobResult" where
  "worker (server, CtxDoneAtPickup) =
     \<lparr>jr_Server = server, Responses = [], Error = Some ErrCtx, Duration = 0\<rparr>"
| "worker (server, Processed responses err d) =
     \<lparr>jr_Server = server, Responses = responses, Error = err, Duration = d\<rparr>"

definition collect :: "JobResult list \<Rightarrow> (string \<times> JobResult) list" where
  "collect rs = foldl (\<lambda>results result. AList.update (jr_Server result) result results) [] rs"

definition Execute ::
  "WorkerPool \<Rightarrow> schedule \<Rightarrow> string list \<Rightarrow> int \<Rightarrow> error + (string \<times> JobResult) list" where
  "Execute wp sch servers samples =
     (if length servers = 0 then Inl ErrNoServers
      else if running wp then Inl ErrAlreadyRunning
      else if submit_ctx_done sch then Inl ErrCtx
      else let results = collect (map worker (arrivals sch))
           in if length results = 0 then Inl ErrNoResults else Inr results)"

definition QueryAll ::
  "WorkerPool \<Rightarrow> schedule \<Rightarrow> string list \<Rightarrow> int \<Rightarrow> error + (string \<times> Statistics) list" where
  "QueryAll wp sch servers samples =
     (case Execute wp sch servers samples of
        Inl err \<Rightarrow> Inl err
      | Inr results \<Rightarrow>
          Inr (map (\<lambda>(server, result).
                 if Error result \<noteq> None then (server, zero_Statistics\<lparr>SamplesCount := 0\<rparr>)
                 else (server, CalculateStatistics (Responses result) samples)) results))"

section \<open>Validator\<close>

text \<open>
  The messages that \<open>Validate\<close> appends are Go strings built from the offending value;
  each is modelled by a constructor carrying that value.
\<close>

datatype message =
    StratumBelowMinimum "8 word" "8 word"
  | StratumAboveMaximum "8 word" "8 word"
  | KissOfDeathReceived string
  | LargeClockOffset duration
  | HighRTT duration
  | NegativeRTT
  | ClockNotSynchronized
  | NegativeRootDelay
  | NegativeRootDispersion
  | ZeroReferenceTime

record Validator =
  maxClockSkew :: duration
  minStratum :: "8 word"
  maxStratum :: "8 word"
  validateRefID :: bool
  checkKissOfDeath :: bool

record ValidationResult =
  Valid :: bool
  Errors :: "message list"
  Warnings :: "message list"
  TrustScore :: real

definition NewValidator :: Validator where
  "NewValidator = \<lparr>maxClockSkew = 1 * Hour, minStratum = 1, maxStratum = 15,
     validateRefID = True, checkKissOfDeath = True\<rparr>"

definition add_error :: "message \<Rightarrow> real \<Rightarrow> ValidationResult \<Rightarrow> ValidationResult" where
  "add_error m penalty result =
     result\<lparr>Errors := Errors result @ [m], Valid := False,
            TrustScore := TrustScore result - penalty\<rparr>"

definition add_warning :: "message \<Rightarrow> real \<Rightarrow> ValidationResult \<Rightarrow> ValidationResult" where
  "add_warning m penalty result =
     result\<lparr>Warnings := Warnings result @ [m], TrustScore := TrustScore result - penalty\<rparr>"

text \<open>\<open>ReferenceTime.IsZero()\<close>: the instant is the zero \<open>time.Time\<close>, modelled as 0.\<close>

definition IsZero :: "int \<Rightarrow> bool" where
  "IsZero t = (t = 0)"

text \<open>One guarded step of \<open>Validate\<close>: \<open>if cond { result = f(result) }\<close>.\<close>

definition check ::
  "bool \<Rightarrow> (ValidationResult \<Rightarrow> ValidationResult) \<Rightarrow> ValidationResult \<Rightarrow> ValidationResult" where
  "check cond f result = (if cond then f result else result)"

definition Validate :: "Validator \<Rightarrow> Response \<Rightarrow> ValidationResult" where
  "Validate v resp =
     (let result = \<lparr>Valid = True, Errors = [], Warnings = [], TrustScore = 1\<rparr>;
          result = check (Stratum resp < minStratum v)
                     (add_error (StratumBelowMinimum (Stratum resp) (minStratum v)) 0.3) result;
          result = check (Stratum resp > maxStratum v)
                     (add_error (StratumAboveMaximum (Stratum resp) (maxStratum v)) 0.3) result;
          result = check (checkKissOfDeath v \<and> IsKissOfDeath resp)
                     (add_error (KissOfDeathReceived (KissCode resp)) 0.5) result;
          result = check (AbsDuration (Offset resp) > maxClockSkew v)
                     (add_warning (LargeClockOffset (Offset resp)) 0.2) result;
          result = check (RTT resp > 10 * Second) (add_warning (HighRTT (RTT resp)) 0.1) result;
          result = check (RTT resp < 0) (add_error NegativeRTT 0.3) result;
          result = check (LeapIndicator resp = 3) (add_warning ClockNotSynchronized 0.2) result;
          result = check (RootDelay resp < 0) (add_error NegativeRootDelay 0.2) result;
          result = check (RootDispersion resp < 0) (add_error NegativeRootDispersion 0.2) result;
          result = check (IsZero (ReferenceTime resp)) (add_warning ZeroReferenceTime 0.1) result;
          result = check (TrustScore result < 0) (\<lambda>r. r\<lparr>TrustScore := 0\<rparr>) result;
          result = check (TrustScore result > 1) (\<lambda>r. r\<lparr>TrustScore := 1\<rparr>) result
      in result)"

definition GetSuspicionReason :: "Validator \<Rightarrow> Response \<Rightarrow> string" where
  "GetSuspicionReason v resp =
     (if Stratum resp = 0 then ''invalid_stratum''
      else if Stratum resp > maxStratum v then ''stratum_too_high''
      else if IsKissOfDeath resp then ''kod_received''
      else if AbsDuration (Offset resp) > maxClockSkew v then ''time_mismatch''
      else if RTT resp > 10 * Second then ''high_rtt''
      else if \<not> IsValid resp then ''validation_failed''
      else ''unknown'')"

section \<open>Hybrid collector: coherence\<close>

text \<open>\<open>calculateCoherence\<close> takes a configuration that it does not read; the model omits
  the parameter.\<close>

definition perfectThreshold :: real where "perfectThreshold = 0.001"
definition excellentThreshold :: real where "excellentThreshold = 0.005"
definition goodThreshold :: real where "goodThreshold = 0.010"
definition acceptableThreshold :: real where "acceptableThreshold = 0.050"

definition calculateCoherence :: "real \<Rightarrow> real \<Rightarrow> real" where
  "calculateCoherence ntpOffset kernelOffset =
     (let divergence = \<bar>ntpOffset - kernelOffset\<bar>
      in if divergence < perfectThreshold then 1.0
         else if divergence < excellentThreshold
           then 1.0 - ((divergence - perfectThreshold)
                        / (excellentThreshold - perfectThreshold) * 0.1)
         else if divergence < goodThreshold
           then 0.9 - ((divergence - excellentThreshold)
                        / (goodThreshold - excellentThreshold) * 0.2)
         else if divergence < acceptableThreshold
           then 0.7 - ((divergence - goodThreshold)
                        / (acceptableThreshold - goodThreshold) * 0.2)
         else (let score = 0.5 * exp (- divergence * 5)
               in if score < 0 then 0 else score))"

text \<open>The piecewise reference of the specification. \<open>line_through x0 y0 x1 y1\<close> is the
  straight line through the two knots.\<close>

definition line_through :: "real \<Rightarrow> real \<Rightarrow> real \<Rightarrow> real \<Rightarrow> real \<Rightarrow> real" where
  "line_through x0 y0 x1 y1 d = y0 + (d - x0) * (y1 - y0) / (x1 - x0)"

definition coherence_spec :: "real \<Rightarrow> real" where
  "coherence_spec d =
     (if d < 0.001 then 1.0
      else if d < 0.005 then line_through 0.001 1.0 0.005 0.9 d
      else if d < 0.010 then line_through 0.005 0.9 0.010 0.7 d
      else if d < 0.050 then line_through 0.010 0.7 0.050 0.5 d
      else max 0 (min 1 (0.5 * exp (- 5 * d))))"

section \<open>Wire client: QueryMultiple\<close>

text \<open>
  \<open>Client.QueryMultiple\<close> loops over \<open>count\<close> attempts. What the context and the wire do is
  a parameter: \<open>done i\<close> says whether \<open>ctx.Done()\<close> is ready at attempt \<open>i\<close>, \<open>query i\<close> is what
  \<open>Query\<close> returns at attempt \<open>i\<close>. The second component of the result counts the calls of
  \<open>Query\<close>; it is not part of the Go result.
\<close>

fun queryLoop ::
  "(nat \<Rightarrow> bool) \<Rightarrow> (nat \<Rightarrow> error + Response) \<Rightarrow> nat \<Rightarrow> nat \<Rightarrow> Response list \<Rightarrow> nat
     \<Rightarrow> (Response list \<times> error option) \<times> nat" where
  "queryLoop done query i 0 responses issued =
     (if length responses = 0 then (([], Some (QuerierError ''all NTP queries failed'')), issued)
      else ((responses, None), issued))"
| "queryLoop done query i (Suc k) responses issued =
     (if done i then ((responses, Some ErrCtx), issued)
      else case query i of
             Inl err \<Rightarrow> queryLoop done query (Suc i) k responses (Suc issued)
           | Inr resp \<Rightarrow> queryLoop done query (Suc i) k (responses @ [resp]) (Suc issued))"

definition Client_QueryMultiple ::
  "(nat \<Rightarrow> bool) \<Rightarrow> (nat \<Rightarrow> error + Response) \<Rightarrow> int
     \<Rightarrow> (Response list \<times> error option) \<times> nat" where
  "Client_QueryMultiple done query count = queryLoop done query 0 (nat count) [] 0"

section \<open>Adaptive sampler\<close>

text \<open>
  A context is the caller's context or one derived from it by \<open>context.WithTimeout\<close>.
  The injected querier is a parameter: \<open>q n ctx server count\<close> is what its \<open>n\<close>-th call of
  \<open>QueryMultiple(ctx, server, count)\<close> returns, a slice and an error as in Go. \<open>elapsed\<close> is
  the reading of \<open>time.Since(start)\<close> after the first batch. \<open>Sample\<close> returns, beside
  the Go result, the list of the \<open>QueryMultiple\<close> calls it made. Logging and the
  confidence score, which is only logged, are left out.
\<close>

datatype ctx = Ctx | WithTimeout ctx duration

type_synonym qm_call = "ctx \<times> string \<times> int"

type_synonym querier = "nat \<Rightarrow> ctx \<Rightarrow> string \<Rightarrow> int \<Rightarrow> Response list \<times> error option"

record AdaptiveSamplingConfig =
  DefaultSamples :: int
  HighDriftSamples :: int
  DriftThreshold :: duration
  MaxDuration :: duration
  ConfidenceLevel :: real

definition NewAdaptiveSamplingConfig :: "AdaptiveSamplingConfig \<Rightarrow> AdaptiveSamplingConfig" where
  "NewAdaptiveSamplingConfig config =
     (let config = (if DefaultSamples config = 0 then config\<lparr>DefaultSamples := 3\<rparr> else config);
          config = (if HighDriftSamples config = 0 then config\<lparr>HighDriftSamples := 10\<rparr>
                    else config);
          config = (if DriftThreshold config = 0
                    then config\<lparr>DriftThreshold := 50 * Millisecond\<rparr> else config);
          config = (if MaxDuration config = 0 then config\<lparr>MaxDuration := 30 * Second\<rparr>
                    else config);
          config = (if ConfidenceLevel config = 0 then config\<lparr>ConfidenceLevel := 0.95\<rparr>
                    else config)
      in config)"

definition Sample ::
  "AdaptiveSamplingConfig \<Rightarrow> querier \<Rightarrow> duration \<Rightarrow> ctx \<Rightarrow> string
     \<Rightarrow> (Response list \<times> error option) \<times> qm_call list" where
  "Sample config q elapsed c server =
     (let (responses, err) = q 0 c server (DefaultSamples config);
          calls = [(c, server, DefaultSamples config)]
      in if err \<noteq> None then (([], err), calls)
         else if length responses = 0 then ((responses, None), calls)
         else
           let stats = CalculateStatistics responses (DefaultSamples config);
               absMedian = AbsDuration (MedianOffset stats)
           in if absMedian > DriftThreshold config then
                (if elapsed < MaxDuration config then
                   (let additionalSamples =
                          wrap64 (HighDriftSamples config - DefaultSamples config);
                        remainingTime = wrap64 (MaxDuration config - elapsed);
                        samplingCtx = WithTimeout c remainingTime;
                        (extraResponses, err) = q 1 samplingCtx server additionalSamples;
                        calls = calls @ [(samplingCtx, server, additionalSamples)]
                    in if err = None \<and> length extraResponses > 0
                       then ((responses @ extraResponses, None), calls)
                       else ((responses, None), calls))
                 else ((responses, None), calls))
              else ((responses, None), calls))"

section \<open>DNS cache\<close>

text \<open>
  The cache maps a host name to its entry. The surroundings of one call of \<open>Resolve\<close> are a
  parameter: \<open>isIP\<close> says whether \<open>net.ParseIP\<close> accepts the name, \<open>now\<close> is the clock when
  the entry is checked, \<open>lookup\<close> is what the resolver returns if it is asked, and
  \<open>now_stored\<close> is the clock when a fresh entry is stored. Instants are nanoseconds.
  \<open>Resolve\<close> returns the Go result and the cache after the call.
\<close>

record DNSCacheEntry =
  IPs :: "string list"
  ExpiresAt :: int
  TTL :: duration
  ErrorCount :: int

record DNSCache =
  cache :: "string \<rightharpoonup> DNSCacheEntry"
  minTTL :: duration
  maxTTL :: duration

record dns_env =
  isIP :: "string \<Rightarrow> bool"
  now :: int
  lookup :: "string \<Rightarrow> error + string list"
  now_stored :: int

definition NewDNSCache :: "duration \<Rightarrow> duration \<Rightarrow> DNSCache" where
  "NewDNSCache MinTTL MaxTTL =
     \<lparr>cache = Map.empty,
      minTTL = (if MinTTL = 0 then 5 * 60 * Second else MinTTL),
      maxTTL = (if MaxTTL = 0 then 60 * 60 * Second else MaxTTL)\<rparr>"

definition calculateAdaptiveTTL :: "DNSCache \<Rightarrow> DNSCacheEntry option \<Rightarrow> duration" where
  "calculateAdaptiveTTL c entry =
     (case entry of
        None \<Rightarrow> sgn (minTTL c + maxTTL c) * (\<bar>minTTL c + maxTTL c\<bar> div 2)
      | Some e \<Rightarrow> if ErrorCount e > 0 then minTTL c else maxTTL c)"

text \<open>The path of \<open>Resolve\<close> after a miss or an expired entry: the resolver is asked.\<close>

definition resolve_miss ::
  "DNSCache \<Rightarrow> dns_env \<Rightarrow> string \<Rightarrow> DNSCacheEntry option
     \<Rightarrow> (error + string list) \<times> DNSCache" where
  "resolve_miss c env hostname entry =
     (case lookup env hostname of
        Inl err \<Rightarrow>
          (case entry of
             Some e \<Rightarrow>
               (Inr (IPs e),
                c\<lparr>cache := (cache c)(hostname \<mapsto> e\<lparr>ErrorCount := ErrorCount e + 1\<rparr>)\<rparr>)
           | None \<Rightarrow> (Inl err, c))
      | Inr ips \<Rightarrow>
          (let ttl = calculateAdaptiveTTL c entry
           in (Inr ips,
               c\<lparr>cache := (cache c)(hostname \<mapsto>
                    \<lparr>IPs = ips, ExpiresAt = now_stored env + ttl, TTL = ttl,
                     ErrorCount = 0\<rparr>)\<rparr>)))"

definition DNSCache_Resolve ::
  "DNSCache \<Rightarrow> dns_env \<Rightarrow> string \<Rightarrow> (error + string list) \<times> DNSCache" where
  "DNSCache_Resolve c env hostname =
     (if isIP env hostname then (Inr [hostname], c)
      else case cache c hostname of
             Some entry \<Rightarrow>
               if now env < ExpiresAt entry then (Inr (IPs entry), c)
               else resolve_miss c env hostname (Some entry)
           | None \<Rightarrow> resolve_miss c env hostname None)"

text \<open>Whether a call of \<open>Resolve\<close> asks the resolver: the name is no IP literal and the
  cache holds no entry that is still fresh.\<close>

definition resolver_asked :: "DNSCache \<Rightarrow> dns_env \<Rightarrow> string \<Rightarrow> bool" where
  "resolver_asked c env hostname =
     (\<not> isIP env hostname \<and>
      (case cache c hostname of Some e \<Rightarrow> \<not> now env < ExpiresAt e | None \<Rightarrow> True))"

section \<open>Pool\<close>

text \<open>
  One call of \<open>Pool.Query\<close> runs in surroundings given as a parameter: those of the DNS
  cache, the measured resolution time, the wall clock in seconds used by the round-robin
  choice, whether \<open>ctx.Done()\<close> is ready before the \<open>i\<close>-th server is queried, what
  \<open>Query\<close> returns for the \<open>i\<close>-th server, and the schedule of the worker pool. Go returns a
  response and an error side by side; the model returns both, each optional, and the
  cache after the call. A panic of the Go code is an error of the model.
\<close>

record PoolResponse =
  PoolName :: string
  Servers :: "string list"
  pr_Responses :: "Response list"
  ActiveServers :: int
  TotalServers :: int
  BestOffset :: duration
  DNSResolution :: duration

record Pool =
  name :: string
  strategy :: string
  maxServers :: int
  fallback :: string
  dnsCache :: DNSCache
  workerPool :: "WorkerPool option"
  useWorkerPool :: bool

record pool_env =
  dns :: dns_env
  dnsTime :: duration
  unix_now :: int
  ctx_done :: "nat \<Rightarrow> bool"
  query :: "nat \<Rightarrow> string \<Rightarrow> error + Response"
  sched :: schedule

definition NewPool :: "string \<Rightarrow> string \<Rightarrow> int \<Rightarrow> string \<Rightarrow> Pool" where
  "NewPool nm strat maxSrv fb =
     \<lparr>name = nm,
      strategy = (if strat = '''' then ''best_n'' else strat),
      maxServers = (if maxSrv = 0 then 4 else maxSrv),
      fallback = fb,
      dnsCache = NewDNSCache 0 0,
      workerPool = None,
      useWorkerPool = False\<rparr>"

definition EnableWorkerPool :: "Pool \<Rightarrow> int \<Rightarrow> Pool" where
  "EnableWorkerPool p sz =
     p\<lparr>workerPool := Some (NewWorkerPool (if sz \<le> 0 then 5 else sz)), useWorkerPool := True\<rparr>"

definition Pool_Resolve :: "Pool \<Rightarrow> pool_env \<Rightarrow> (error + string list) \<times> DNSCache" where
  "Pool_Resolve p env =
     (case DNSCache_Resolve (dnsCache p) (dns env) (name p) of
        (Inl err, c) \<Rightarrow>
          if fallback p \<noteq> '''' then (Inr [fallback p], c) else (Inl ErrResolvePool, c)
      | (Inr ips, c) \<Rightarrow>
          if int (length ips) > maxServers p
          then (if maxServers p < 0 then (Inl PanicSliceBounds, c)
                else (Inr (take (nat (maxServers p)) ips), c))
          else (Inr ips, c))"

text \<open>Go's \<open>%\<close> truncates towards zero; a negative index panics.\<close>

definition selectServersByStrategy :: "Pool \<Rightarrow> int \<Rightarrow> string list \<Rightarrow> error + string list" where
  "selectServersByStrategy p unix servers =
     (if strategy p = ''all'' then Inr servers
      else if strategy p = ''round_robin'' then
        (if length servers = 0 then Inr []
         else let index = sgn unix * (\<bar>unix\<bar> mod int (length servers))
              in if index < 0 then Inl PanicIndexOutOfRange else Inr [servers ! nat index])
      else Inr servers)"

definition findBestOffset :: "Response list \<Rightarrow> duration" where
  "findBestOffset responses =
     (case responses of
        [] \<Rightarrow> 0
      | r0 # rest \<Rightarrow>
          fst (foldl (\<lambda>(best, bestAbs) resp.
                        let a = AbsDuration (Offset resp)
                        in if a < bestAbs then (Offset resp, a) else (best, bestAbs))
                     (Offset r0, AbsDuration (Offset r0)) rest))"

fun query_servers ::
  "Pool \<Rightarrow> pool_env \<Rightarrow> nat \<Rightarrow> string list \<Rightarrow> PoolResponse \<Rightarrow> PoolResponse \<times> error option" where
  "query_servers p env i [] response = (response, None)"
| "query_servers p env i (server # rest) response =
     (if ctx_done env i then (response, Some ErrCtx)
      else case query env i server of
             Inl err \<Rightarrow> query_servers p env (Suc i) rest response
           | Inr resp \<Rightarrow>
               (let response = response\<lparr>pr_Responses := pr_Responses response @ [resp],
                                        ActiveServers := ActiveServers response + 1\<rparr>
                in if strategy p = ''best_n'' \<and> ActiveServers response \<ge> maxServers p
                   then (response, None)
                   else query_servers p env (Suc i) rest response))"

definition take_first_responses ::
  "(string \<times> JobResult) list \<Rightarrow> PoolResponse \<Rightarrow> PoolResponse" where
  "take_first_responses results response =
     foldl (\<lambda>response (server, result).
              case Responses result of
                [] \<Rightarrow> response
              | r # rs \<Rightarrow>
                  if Error result = None
                  then response\<lparr>pr_Responses := pr_Responses response @ [r],
                                ActiveServers := ActiveServers response + 1\<rparr>
                  else response)
           response results"

definition set_best_offset :: "PoolResponse \<Rightarrow> PoolResponse" where
  "set_best_offset response =
     (if length (pr_Responses response) > 0
      then response\<lparr>BestOffset := findBestOffset (pr_Responses response)\<rparr>
      else response)"

definition Pool_Query ::
  "Pool \<Rightarrow> pool_env \<Rightarrow> int \<Rightarrow> (PoolResponse option \<times> error option) \<times> DNSCache" where
  "Pool_Query p env samples =
     (case Pool_Resolve p env of
        (Inl err, c) \<Rightarrow> ((None, Some err), c)
      | (Inr servers, c) \<Rightarrow>
          (let response = \<lparr>PoolName = name p, Servers = servers, pr_Responses = [],
                            ActiveServers = 0, TotalServers = int (length servers),
                            BestOffset = 0, DNSResolution = dnsTime env\<rparr>
           in case selectServersByStrategy p (unix_now env) servers of
                Inl err \<Rightarrow> ((None, Some err), c)
              | Inr selectedServers \<Rightarrow>
                  (case (if useWorkerPool p \<and> strategy p = ''all'' then workerPool p else None) of
                     Some wp \<Rightarrow>
                       (case Execute wp (sched env) selectedServers samples of
                          Inl err \<Rightarrow> ((Some (set_best_offset response), None), c)
                        | Inr results \<Rightarrow>
                            ((Some (set_best_offset (take_first_responses results response)),
                              None), c))
                   | None \<Rightarrow>
                       (case query_servers p env 0 selectedServers response of
                          (response, Some err) \<Rightarrow> ((Some response, Some err), c)
                        | (response, None) \<Rightarrow> ((Some (set_best_offset response), None), c)))))"

section \<open>Circuit breaker\<close>

text \<open>
  \<open>CircuitBreakerClient\<close> keeps one breaker per server and runs each query through it. The
  configuration, its constructors with the trip condition, the map of breakers and the
  two query functions are in the source. The breaker itself comes from the library
  \<open>gobreaker\<close>, whose code is not part of the repository.
\<close>

datatype State = StateClosed | StateHalfOpen | StateOpen

record Counts =
  Requests :: nat
  TotalSuccesses :: nat
  TotalFailures :: nat
  ConsecutiveSuccesses :: nat
  ConsecutiveFailures :: nat

record CircuitBreakerConfig =
  MaxRequests :: nat
  Interval :: duration
  Timeout :: duration
  ReadyToTrip :: "(Counts \<Rightarrow> bool) option"

definition DefaultCircuitBreakerConfig :: CircuitBreakerConfig where
  "DefaultCircuitBreakerConfig =
     \<lparr>MaxRequests = 3, Interval = 60 * Second, Timeout = 30 * Second,
      ReadyToTrip = Some (\<lambda>counts.
        let failureRatio = real (TotalFailures counts) / real (Requests counts)
        in Requests counts \<ge> 3 \<and> failureRatio \<ge> 0.6)\<rparr>"

definition NewCircuitBreakerConfigWithThreshold ::
  "nat \<Rightarrow> duration \<Rightarrow> duration \<Rightarrow> real \<Rightarrow> CircuitBreakerConfig" where
  "NewCircuitBreakerConfigWithThreshold maxRequests interval timeout failureThreshold =
     \<lparr>MaxRequests = maxRequests, Interval = interval, Timeout = timeout,
      ReadyToTrip = Some (\<lambda>counts.
        let failureRatio = real (TotalFailures counts) / real (Requests counts)
        in Requests counts \<ge> 3 \<and> failureRatio \<ge> failureThreshold)\<rparr>"

text \<open>
  Modelled from the spec: the breaker of the library \<open>gobreaker\<close> (\<open>NewCircuitBreaker\<close>,
  \<open>Execute\<close>, its states and its \<open>Counts\<close>), which the source calls and which is not under
  src/. A breaker is \<open>Closed\<close> (pass through, count outcomes; the counters are reset
  when the interval has passed), \<open>Open\<close> (reject at once; half-open after the timeout has
  elapsed) or \<open>HalfOpen\<close> (allow up to \<open>MaxRequests\<close> probes; any failure re-opens, successes
  reaching \<open>MaxRequests\<close> close). A new breaker is closed with zeroed counters. In \<open>Closed\<close>
  a failure trips the breaker when \<open>ReadyToTrip\<close> holds of the counters; the comment on
  that field in the source gives the default for a nil function. Every transition clears
  the counters and is stamped with the clock. One call reads the clock once.
\<close>

record breaker =
  b_state :: State
  b_counts :: Counts
  b_expiry :: "int option"

definition zero_Counts :: Counts where
  "zero_Counts = \<lparr>Requests = 0, TotalSuccesses = 0, TotalFailures = 0,
     ConsecutiveSuccesses = 0, ConsecutiveFailures = 0\<rparr>"

definition setState :: "CircuitBreakerConfig \<Rightarrow> State \<Rightarrow> int \<Rightarrow> breaker" where
  "setState cfg st t =
     \<lparr>b_state = st, b_counts = zero_Counts,
      b_expiry = (case st of
          StateClosed \<Rightarrow> if Interval cfg \<le> 0 then None else Some (t + Interval cfg)
        | StateOpen \<Rightarrow> Some (t + Timeout cfg)
        | StateHalfOpen \<Rightarrow> None)\<rparr>"

definition NewCircuitBreaker :: "CircuitBreakerConfig \<Rightarrow> int \<Rightarrow> breaker" where
  "NewCircuitBreaker cfg t = setState cfg StateClosed t"

definition expired :: "breaker \<Rightarrow> int \<Rightarrow> bool" where
  "expired b t = (case b_expiry b of None \<Rightarrow> False | Some e \<Rightarrow> e < t)"

definition currentState :: "CircuitBreakerConfig \<Rightarrow> breaker \<Rightarrow> int \<Rightarrow> breaker" where
  "currentState cfg b t =
     (case b_state b of
        StateClosed \<Rightarrow> if expired b t then setState cfg StateClosed t else b
      | StateOpen \<Rightarrow> if expired b t then setState cfg StateHalfOpen t else b
      | StateHalfOpen \<Rightarrow> b)"

definition readyToTrip :: "CircuitBreakerConfig \<Rightarrow> Counts \<Rightarrow> bool" where
  "readyToTrip cfg counts =
     (case ReadyToTrip cfg of
        None \<Rightarrow> ConsecutiveFailures counts > 5
      | Some f \<Rightarrow> f counts)"

definition onRequest :: "Counts \<Rightarrow> Counts" where
  "onRequest c = c\<lparr>Requests := Requests c + 1\<rparr>"

definition onSuccess :: "Counts \<Rightarrow> Counts" where
  "onSuccess c = c\<lparr>TotalSuccesses := TotalSuccesses c + 1,
     ConsecutiveSuccesses := ConsecutiveSuccesses c + 1, ConsecutiveFailures := 0\<rparr>"

definition onFailure :: "Counts \<Rightarrow> Counts" where
  "onFailure c = c\<lparr>TotalFailures := TotalFailures c + 1,
     ConsecutiveFailures := ConsecutiveFailures c + 1, ConsecutiveSuccesses := 0\<rparr>"

definition beforeRequest ::
  "CircuitBreakerConfig \<Rightarrow> breaker \<Rightarrow> int \<Rightarrow> error option \<times> breaker" where
  "beforeRequest cfg b t =
     (let b = currentState cfg b t
      in if b_state b = StateOpen then (Some ErrOpenState, b)
         else if b_state b = StateHalfOpen \<and> Requests (b_counts b) \<ge> MaxRequests cfg
           then (Some ErrTooManyRequests, b)
         else (None, b\<lparr>b_counts := onRequest (b_counts b)\<rparr>))"

definition afterRequest :: "CircuitBreakerConfig \<Rightarrow> breaker \<Rightarrow> int \<Rightarrow> bool \<Rightarrow> breaker" where
  "afterRequest cfg b t success =
     (case b_state b of
        StateClosed \<Rightarrow>
          if success then b\<lparr>b_counts := onSuccess (b_counts b)\<rparr>
          else let counts = onFailure (b_counts b)
               in if readyToTrip cfg counts then setState cfg StateOpen t
                  else b\<lparr>b_counts := counts\<rparr>
      | StateHalfOpen \<Rightarrow>
          if success
          then let counts = onSuccess (b_counts b)
               in if ConsecutiveSuccesses counts \<ge> MaxRequests cfg
                  then setState cfg StateClosed t
                  else b\<lparr>b_counts := counts\<rparr>
          else setState cfg StateOpen t
      | StateOpen \<Rightarrow> b)"

text \<open>\<open>breaker.Execute(req)\<close>: \<open>out\<close> is what the request returns if the breaker lets it
  run; the last component of the result says whether it ran.\<close>

definition breaker_Execute ::
  "CircuitBreakerConfig \<Rightarrow> breaker \<Rightarrow> int \<Rightarrow> error + 'a \<Rightarrow> (error + 'a) \<times> breaker \<times> bool" where
  "breaker_Execute cfg b t out =
     (case beforeRequest cfg b t of
        (Some err, b) \<Rightarrow> (Inl err, b, False)
      | (None, b) \<Rightarrow> (out, afterRequest cfg b t (case out of Inl e \<Rightarrow> False | Inr r \<Rightarrow> True), True))"

text \<open>
  The client of the source. \<open>wire_calls\<close> records, in order, the servers for which the
  wrapped querier was invoked; it is not a field of the Go struct. The wrapped querier
  is a parameter: \<open>querier n server\<close> is what its \<open>n\<close>-th invocation returns. \<open>errors.Is(err,
  gobreaker.ErrOpenState)\<close> follows the chain of wrapped errors.
\<close>

record CircuitBreakerClient =
  breakers :: "string \<rightharpoonup> breaker"
  cb_config :: CircuitBreakerConfig
  wire_calls :: "string list"

definition NewCircuitBreakerClient :: "CircuitBreakerConfig \<Rightarrow> CircuitBreakerClient" where
  "NewCircuitBreakerClient cfg =
     \<lparr>breakers = Map.empty,
      cb_config = (if MaxRequests cfg = 0 then DefaultCircuitBreakerConfig else cfg),
      wire_calls = []\<rparr>"

fun Is_ErrOpenState :: "error \<Rightarrow> bool" where
  "Is_ErrOpenState ErrOpenState = True"
| "Is_ErrOpenState (ErrCircuitOpen server err) = Is_ErrOpenState err"
| "Is_ErrOpenState e = False"

definition getBreakerForServer ::
  "CircuitBreakerClient \<Rightarrow> int \<Rightarrow> string \<Rightarrow> breaker \<times> CircuitBreakerClient" where
  "getBreakerForServer cb t server =
     (case breakers cb server of
        Some b \<Rightarrow> (b, cb)
      | None \<Rightarrow>
          (let b = NewCircuitBreaker (cb_config cb) t
           in (b, cb\<lparr>breakers := (breakers cb)(server \<mapsto> b)\<rparr>)))"

definition protected ::
  "CircuitBreakerClient \<Rightarrow> int \<Rightarrow> string \<Rightarrow> error + 'a \<Rightarrow> (error + 'a) \<times> CircuitBreakerClient" where
  "protected cb t server out =
     (let (b, cb) = getBreakerForServer cb t server;
          (result, b, invoked) = breaker_Execute (cb_config cb) b t out;
          cb = cb\<lparr>breakers := (breakers cb)(server \<mapsto> b),
                  wire_calls := (if invoked then wire_calls cb @ [server] else wire_calls cb)\<rparr>
      in case result of
           Inl err \<Rightarrow>
             if Is_ErrOpenState err then (Inl (ErrCircuitOpen server err), cb)
             else (Inl err, cb)
         | Inr r \<Rightarrow> (Inr r, cb))"

definition CB_Query ::
  "CircuitBreakerClient \<Rightarrow> (nat \<Rightarrow> string \<Rightarrow> error + Response) \<Rightarrow> int \<Rightarrow> string
     \<Rightarrow> (error + Response) \<times> CircuitBreakerClient" where
  "CB_Query cb querier t server =
     protected cb t server (querier (length (wire_calls cb)) server)"

definition CB_QueryMultiple ::
  "CircuitBreakerClient \<Rightarrow> (nat \<Rightarrow> string \<Rightarrow> int \<Rightarrow> Response list \<times> error option) \<Rightarrow> int
     \<Rightarrow> string \<Rightarrow> int \<Rightarrow> (error + Response list) \<times> CircuitBreakerClient" where
  "CB_QueryMultiple cb querier t server samples =
     protected cb t server
       (case querier (length (wire_calls cb)) server samples of
          (responses, None) \<Rightarrow> Inr responses
        | (responses, Some err) \<Rightarrow> Inl err)"

section \<open>A response of the mock client\<close>

text \<open>The response that \<open>MockNTPClient.SetupSuccessfulServer\<close> configures, with the clock
  reading \<open>t\<close> of its \<open>time.Now()\<close>.\<close>

definition mock_response :: "int \<Rightarrow> string \<Rightarrow> duration \<Rightarrow> 8 word \<Rightarrow> Response" where
  "mock_response t server offset stratum =
     \<lparr>Server = server, Offset = offset, RTT = 50 * Millisecond, Stratum = stratum,
      ReferenceTime = t - 1 * Hour, RootDelay = 10 * Millisecond,
      RootDispersion = 5 * Millisecond, RootDistance = 15 * Millisecond,
      Precision = 1000, LeapIndicator = 0, Poll = 6 * Second, ValidateError = None,
      ReferenceID = 0x4E495354, KissCode = ''''\<rparr>"

section \<open>Example inputs\<close>

text \<open>The adaptive-sampling scenario: three default samples, ten under high drift, a
  threshold of 50 ms and a budget of 30 s; a server whose clock is 80 ms off; a wire that
  always answers; a context that is never done, and one whose deadline fires after the
  first query of a batch.\<close>

definition scenario_config :: AdaptiveSamplingConfig where
  "scenario_config = \<lparr>DefaultSamples = 3, HighDriftSamples = 10,
     DriftThreshold = 50 * Millisecond, MaxDuration = 30 * Second, ConfidenceLevel = 0.95\<rparr>"

definition drift_response :: Response where
  "drift_response = mock_response 1700000000000000000 ''drift.example'' (80 * Millisecond) 2"

definition drift_wire :: "nat \<Rightarrow> error + Response" where
  "drift_wire i = Inr drift_response"

definition never_done :: "nat \<Rightarrow> bool" where
  "never_done i = False"

definition done_after_one :: "nat \<Rightarrow> bool" where
  "done_after_one i = (1 \<le> i)"

definition steady_querier :: querier where
  "steady_querier n c server count = fst (Client_QueryMultiple never_done drift_wire count)"

definition deadline_querier :: querier where
  "deadline_querier n c server count =
     fst (Client_QueryMultiple (if n = 1 then done_after_one else never_done) drift_wire count)"

text \<open>The circuit-breaker scenario: a querier that always fails, and the client after
  three failed queries to one server at 0 s, 1 s and 2 s.\<close>

definition failing_querier :: "nat \<Rightarrow> string \<Rightarrow> error + Response" where
  "failing_querier n server = Inl (QuerierError ''i/o timeout'')"

definition failing_multi_querier :: "nat \<Rightarrow> string \<Rightarrow> int \<Rightarrow> Response list \<times> error option" where
  "failing_multi_querier n server samples = ([], Some (QuerierError ''all NTP queries failed''))"

definition tripped_client :: CircuitBreakerClient where
  "tripped_client =
     (let cb0 = NewCircuitBreakerClient
                  (NewCircuitBreakerConfigWithThreshold 3 (60 * Second) (30 * Second) 0.6);
          cb1 = snd (CB_Query cb0 failing_querier 0 ''bad.example'');
          cb2 = snd (CB_Query cb1 failing_querier (1 * Second) ''bad.example'');
          cb3 = snd (CB_Query cb2 failing_querier (2 * Second) ''bad.example'')
      in cb3)"

text \<open>A DNS cache with one expired entry, and surroundings in which the resolver fails.\<close>

definition stale_cache :: DNSCache where
  "stale_cache =
     \<lparr>cache = [''pool.example'' \<mapsto>
                 \<lparr>IPs = [''192.0.2.1'', ''192.0.2.2''], ExpiresAt = 100, TTL = 50,
                  ErrorCount = 0\<rparr>],
      minTTL = 10, maxTTL = 100\<rparr>"

definition failing_dns :: dns_env where
  "failing_dns = \<lparr>isIP = (\<lambda>h. False), now = 200,
     lookup = (\<lambda>h. Inl (ErrLookup ''no such host'')), now_stored = 201\<rparr>"

text \<open>A pool limited to two servers whose name resolves to three addresses, all of which
  answer.\<close>

definition three_addresses :: "string list" where
  "three_addresses = [''192.0.2.1'', ''192.0.2.2'', ''192.0.2.3'']"

definition example_pool :: Pool where
  "example_pool = NewPool ''pool.example'' ''best_n'' 2 []"

definition example_env :: pool_env where
  "example_env =
     \<lparr>dns = \<lparr>isIP = (\<lambda>h. False), now = 200, lookup = (\<lambda>h. Inr three_addresses),
              now_stored = 201\<rparr>,
      dnsTime = 2 * Millisecond,
      unix_now = 1700000000,
      ctx_done = (\<lambda>i. False),
      query = (\<lambda>i server. Inr (mock_response 1700000000000000000 server (5 * Millisecond) 2)),
      sched = \<lparr>submit_ctx_done = False, arrivals = []\<rparr>\<rparr>"

section \<open>Arithmetic helpers\<close>

lemma wrap64_id: "int64 x \<Longrightarrow> wrap64 x = x"
  unfolding int64_def wrap64_def by (simp add: mod_pos_pos_trivial)

lemma AbsDuration_Hour: "\<bar>d\<bar> = Hour \<Longrightarrow> AbsDuration d = Hour"
  by (auto simp: AbsDuration_def Hour_def wrap64_def)

lemma AbsDuration_le_Hour: "\<bar>d\<bar> \<le> Hour \<Longrightarrow> AbsDuration d = \<bar>d\<bar>"
  by (auto simp: AbsDuration_def Hour_def wrap64_def)

lemma AbsDuration_gt_Hour: "Hour < AbsDuration d \<Longrightarrow> Hour < \<bar>d\<bar>"
proof (rule ccontr)
  assume a: "Hour < AbsDuration d" and n: "\<not> Hour < \<bar>d\<bar>"
  then have "\<bar>d\<bar> \<le> Hour" by simp
  then have "AbsDuration d = \<bar>d\<bar>" by (rule AbsDuration_le_Hour)
  with a n show False by linarith
qed

section \<open>Statistics: packet loss\<close>

lemma calculatePacketLoss_formula:
  assumes "int64 (totalN - received)"
  shows "calculatePacketLoss received totalN =
     (if totalN = 0 then 0 else real_of_int (max 0 (totalN - received)) / real_of_int totalN)"
  using assms by (auto simp: calculatePacketLoss_def wrap64_id Let_def max_def)

lemma calculatePacketLoss_range:
  assumes "int64 (totalN - received)" "0 \<le> received"
  shows "0 \<le> calculatePacketLoss received totalN \<and> calculatePacketLoss received totalN \<le> 1"
proof (cases "totalN \<le> 0")
  case True
  then show ?thesis using assms
    by (auto simp: calculatePacketLoss_def wrap64_id Let_def)
next
  case False
  then show ?thesis using assms
    by (auto simp: calculatePacketLoss_def wrap64_id Let_def)
qed

text \<open>
  Claim C1. Let \<open>requested - received\<close> fit in 64 bits. For an empty list of responses
  \<open>CalculateStatistics\<close> returns the all-zero statistics with \<open>SamplesCount = 0\<close> and
  \<open>PacketLossRatio = 1\<close>. For a non-empty list, and for any list when \<open>requested\<close> is
  positive, \<open>PacketLossRatio\<close> is \<open>max(0, requested - received) / requested\<close>, and 0 when
  \<open>requested = 0\<close>. In every case \<open>PacketLossRatio\<close> lies in \<open>[0, 1]\<close>.
\<close>

theorem CalculateStatistics_packet_loss:
  assumes "int64 (totalSamples - int (length responses))"
  shows "(responses = [] \<longrightarrow>
            CalculateStatistics responses totalSamples =
              \<lparr>MedianOffset = 0, MeanOffset = 0, StdDevOffset = 0, Jitter = 0, Asymmetry = 0,
               SamplesCount = 0, PacketLossRatio = 1\<rparr>) \<and>
         (responses \<noteq> [] \<or> 0 < totalSamples \<longrightarrow>
            PacketLossRatio (CalculateStatistics responses totalSamples) =
              (if totalSamples = 0 then 0
               else real_of_int (max 0 (totalSamples - int (length responses)))
                      / real_of_int totalSamples)) \<and>
         0 \<le> PacketLossRatio (CalculateStatistics responses totalSamples) \<and>
         PacketLossRatio (CalculateStatistics responses totalSamples) \<le> 1"
proof (cases "responses = []")
  case True
  then show ?thesis by (simp add: CalculateStatistics_def zero_Statistics_def)
next
  case False
  have plr: "PacketLossRatio (CalculateStatistics responses totalSamples) =
      calculatePacketLoss (int (length responses)) totalSamples"
    using False by (simp add: CalculateStatistics_def Let_def)
  show ?thesis
    using False calculatePacketLoss_formula [OF assms] calculatePacketLoss_range [OF assms]
    by (simp add: plr)
qed

text \<open>One response out of four requested: three quarters are lost. No response out of
  four requested: all are lost, by both rules.\<close>

theorem CalculateStatistics_packet_loss_witness:
  "int64 (4 - int (length [mock_response 0 ''a.example'' 5000000 2])) \<and>
   [mock_response 0 ''a.example'' 5000000 2] \<noteq> [] \<and>
   PacketLossRatio (CalculateStatistics [mock_response 0 ''a.example'' 5000000 2] 4) = 3 / 4 \<and>
   int64 (4 - int (length ([] :: Response list))) \<and>
   PacketLossRatio (CalculateStatistics [] 4) = 1"
  using CalculateStatistics_packet_loss [of 4 "[mock_response 0 ''a.example'' 5000000 2]"]
        CalculateStatistics_packet_loss [of 4 "[]"]
  by (simp add: int64_def)

section \<open>Worker pool\<close>

lemma update_not_Nil: "AList.update k v al \<noteq> []"
  by (cases al) auto

lemma foldl_update_not_Nil:
  "acc \<noteq> [] \<or> rs \<noteq> [] \<Longrightarrow>
   foldl (\<lambda>results result. AList.update (jr_Server result) result results) acc rs \<noteq> []"
  by (induction rs arbitrary: acc) (auto simp: update_not_Nil)

lemma collect_Nil_iff: "collect rs = [] \<longleftrightarrow> rs = []"
  using foldl_update_not_Nil [of "[]" rs] by (auto simp: collect_def)

text \<open>
  Claim C2, evaluated where it fails. The job of the only server finishes with the error of
  a \<open>QueryMultiple\<close> whose queries all failed. \<open>QueryAll\<close> maps the server to statistics
  with \<open>SamplesCount = 0\<close> and \<open>PacketLossRatio = 0\<close>, not \<open>1\<close>.
\<close>

theorem QueryAll_failed_job_packet_loss_zero:
  "QueryAll (NewWorkerPool 2)
     \<lparr>submit_ctx_done = False,
      arrivals = [(''bad'', Processed [] (Some (QuerierError ''all queries failed'')) 0)]\<rparr>
     [''bad''] 10
   = Inr [(''bad'', \<lparr>MedianOffset = 0, MeanOffset = 0, StdDevOffset = 0, Jitter = 0,
                    Asymmetry = 0, SamplesCount = 0, PacketLossRatio = 0\<rparr>)]"
  by (simp add: QueryAll_def Execute_def NewWorkerPool_def collect_def zero_Statistics_def)

text \<open>
  Claim C10. For a non-empty list of servers \<open>Execute\<close> returns an error or a non-empty map
  of results. When the pool is idle, the jobs are all submitted and no result arrives on
  the results channel, it fails with the error "no results collected", which is none of
  "no servers to query", "worker pool already running" and the context's error.
\<close>

theorem Execute_results_or_error:
  assumes "servers \<noteq> []"
  shows "(case Execute wp sch servers samples of
            Inl err \<Rightarrow> True | Inr results \<Rightarrow> results \<noteq> []) \<and>
         (\<not> running wp \<and> \<not> submit_ctx_done sch \<and> arrivals sch = [] \<longrightarrow>
            Execute wp sch servers samples = Inl ErrNoResults) \<and>
         ErrNoResults \<notin> {ErrNoServers, ErrAlreadyRunning, ErrCtx}"
  using assms by (auto simp: Execute_def Let_def collect_Nil_iff)

text \<open>A pool of two workers, one server, and a context cancelled while the job runs, so
  that the worker drops its result.\<close>

theorem Execute_results_or_error_witness:
  "[''a.example''] \<noteq> [] \<and>
   \<not> running (NewWorkerPool 2) \<and>
   \<not> submit_ctx_done \<lparr>submit_ctx_done = False, arrivals = []\<rparr> \<and>
   arrivals \<lparr>submit_ctx_done = False, arrivals = []\<rparr> = [] \<and>
   Execute (NewWorkerPool 2) \<lparr>submit_ctx_done = False, arrivals = []\<rparr> [''a.example''] 3
     = Inl ErrNoResults"
  using Execute_results_or_error
          [of "[''a.example'']" "NewWorkerPool 2" "\<lparr>submit_ctx_done = False, arrivals = []\<rparr>" 3]
  by (simp add: NewWorkerPool_def)

section \<open>Validator\<close>

lemma Valid_check_error: "Valid (check c (add_error m p) r) = (\<not> c \<and> Valid r)"
  by (simp add: check_def add_error_def)

lemma Valid_check_warning: "Valid (check c (add_warning m p) r) = Valid r"
  by (simp add: check_def add_warning_def)

lemma Valid_check_clamp: "Valid (check c (\<lambda>r. r\<lparr>TrustScore := x\<rparr>) r) = Valid r"
  by (simp add: check_def)

lemma Warnings_check_error: "Warnings (check c (add_error m p) r) = Warnings r"
  by (simp add: check_def add_error_def)

lemma Warnings_check_warning:
  "Warnings (check c (add_warning m p) r) = (if c then Warnings r @ [m] else Warnings r)"
  by (simp add: check_def add_warning_def)

lemma Warnings_check_clamp: "Warnings (check c (\<lambda>r. r\<lparr>TrustScore := x\<rparr>) r) = Warnings r"
  by (simp add: check_def)

lemma check_False: "\<not> c \<Longrightarrow> check c f r = r"
  by (simp add: check_def)

lemma Valid_Validate:
  "Valid (Validate v resp) \<longleftrightarrow>
     \<not> Stratum resp < minStratum v \<and> \<not> Stratum resp > maxStratum v \<and>
     \<not> (checkKissOfDeath v \<and> IsKissOfDeath resp) \<and> \<not> RTT resp < 0 \<and>
     \<not> RootDelay resp < 0 \<and> \<not> RootDispersion resp < 0"
  by (simp add: Validate_def Let_def Valid_check_error Valid_check_warning Valid_check_clamp)
     blast

lemma Warnings_Validate_offset:
  "LargeClockOffset d \<in> set (Warnings (Validate v resp)) \<longleftrightarrow>
     AbsDuration (Offset resp) > maxClockSkew v \<and> d = Offset resp"
  by (auto simp add: Validate_def Let_def Warnings_check_error Warnings_check_warning
      Warnings_check_clamp)

lemma Validate_no_skew:
  assumes "\<not> AbsDuration (Offset resp) > maxClockSkew v" "\<not> AbsDuration d > maxClockSkew v"
  shows "Validate v (resp\<lparr>Offset := d\<rparr>) = Validate v resp"
  using assms by (simp add: Validate_def Let_def IsKissOfDeath_def check_False)

text \<open>
  Claim C4, evaluated where it fails. A Kiss-of-Death response has stratum 0 and the kiss
  code \<open>RATE\<close>. \<open>GetSuspicionReason\<close> answers \<open>invalid_stratum\<close>, not \<open>kod_received\<close>: its
  first test reads the stratum alone.
\<close>

theorem GetSuspicionReason_stratum0_kiss_code:
  "GetSuspicionReason NewValidator
     ((mock_response 1700000000000000000 ''kod.example'' 0 0)\<lparr>KissCode := ''RATE''\<rparr>)
   = ''invalid_stratum''"
  by (simp add: GetSuspicionReason_def mock_response_def)

text \<open>
  Claim C9, as amended. For a response whose offset is exactly one hour in absolute value,
  \<open>Validate\<close> emits no large-clock-offset warning and returns what it returns for the same
  response with offset zero, so no penalty is taken. The warning is emitted when the
  absolute offset is strictly greater than one hour, and only then: a large-clock-offset
  warning in the result means that the absolute offset exceeds one hour, and it carries
  that offset. Up to one hour the result is that for offset zero. The offset never
  changes \<open>Valid\<close>.
\<close>

theorem Validate_offset_one_hour:
  "(\<bar>Offset resp\<bar> = Hour \<longrightarrow>
      (\<forall>d. LargeClockOffset d \<notin> set (Warnings (Validate NewValidator resp))) \<and>
      Validate NewValidator (resp\<lparr>Offset := 0\<rparr>) = Validate NewValidator resp) \<and>
   (Hour < \<bar>Offset resp\<bar> \<and> int64 (- Offset resp) \<longrightarrow>
      LargeClockOffset (Offset resp) \<in> set (Warnings (Validate NewValidator resp))) \<and>
   Valid (Validate NewValidator (resp\<lparr>Offset := 0\<rparr>)) = Valid (Validate NewValidator resp) \<and>
   (LargeClockOffset d \<in> set (Warnings (Validate NewValidator resp)) \<longrightarrow>
      Hour < \<bar>Offset resp\<bar> \<and> d = Offset resp) \<and>
   (\<bar>Offset resp\<bar> \<le> Hour \<longrightarrow>
      Validate NewValidator (resp\<lparr>Offset := 0\<rparr>) = Validate NewValidator resp)"
proof (intro conjI impI)
  assume h: "\<bar>Offset resp\<bar> = Hour"
  then have a: "AbsDuration (Offset resp) = Hour" by (rule AbsDuration_Hour)
  show "\<forall>d. LargeClockOffset d \<notin> set (Warnings (Validate NewValidator resp))"
    by (simp add: Warnings_Validate_offset a NewValidator_def)
  have "\<not> AbsDuration (Offset resp) > maxClockSkew NewValidator"
    by (simp add: a NewValidator_def)
  moreover have "\<not> AbsDuration 0 > maxClockSkew NewValidator"
    by (simp add: AbsDuration_def NewValidator_def Hour_def)
  ultimately show "Validate NewValidator (resp\<lparr>Offset := 0\<rparr>) = Validate NewValidator resp"
    by (rule Validate_no_skew)
next
  assume h: "Hour < \<bar>Offset resp\<bar> \<and> int64 (- Offset resp)"
  then have "AbsDuration (Offset resp) = \<bar>Offset resp\<bar>"
    by (auto simp: AbsDuration_def wrap64_id)
  with h show "LargeClockOffset (Offset resp) \<in> set (Warnings (Validate NewValidator resp))"
    by (simp add: Warnings_Validate_offset NewValidator_def)
next
  show "Valid (Validate NewValidator (resp\<lparr>Offset := 0\<rparr>)) = Valid (Validate NewValidator resp)"
    by (simp add: Valid_Validate IsKissOfDeath_def)
next
  assume w: "LargeClockOffset d \<in> set (Warnings (Validate NewValidator resp))"
  then have "Hour < AbsDuration (Offset resp)" and eq: "d = Offset resp"
    by (simp_all add: Warnings_Validate_offset NewValidator_def)
  then show "Hour < \<bar>Offset resp\<bar>" by (simp add: AbsDuration_gt_Hour)
  from eq show "d = Offset resp" .
next
  assume h: "\<bar>Offset resp\<bar> \<le> Hour"
  have "\<not> AbsDuration (Offset resp) > maxClockSkew NewValidator"
    using h by (simp add: AbsDuration_le_Hour NewValidator_def)
  moreover have "\<not> AbsDuration 0 > maxClockSkew NewValidator"
    by (simp add: AbsDuration_def NewValidator_def Hour_def)
  ultimately show "Validate NewValidator (resp\<lparr>Offset := 0\<rparr>) = Validate NewValidator resp"
    by (rule Validate_no_skew)
qed

text \<open>The claim as stated fails for the mock response with an offset of exactly one hour:
  the result carries no warning and the full trust score.\<close>

theorem Validate_offset_one_hour_counterexample:
  "\<bar>Offset (mock_response 1700000000000000000 ''a.example'' Hour 2)\<bar> = Hour \<and>
   Validate NewValidator (mock_response 1700000000000000000 ''a.example'' Hour 2) =
     \<lparr>Valid = True, Errors = [], Warnings = [], TrustScore = 1\<rparr>"
  by (simp add: Validate_def mock_response_def NewValidator_def check_def Hour_def
      AbsDuration_def IsKissOfDeath_def IsZero_def Second_def Millisecond_def)

text \<open>An offset of minus one hour gives no warning, an offset of two hours gives one.\<close>

theorem Validate_offset_one_hour_witness:
  "\<bar>Offset (mock_response 1700000000000000000 ''a.example'' (- Hour) 2)\<bar> = Hour \<and>
   \<bar>Offset (mock_response 1700000000000000000 ''a.example'' (- Hour) 2)\<bar> \<le> Hour \<and>
   Hour < \<bar>Offset (mock_response 1700000000000000000 ''b.example'' (2 * Hour) 2)\<bar> \<and>
   int64 (- Offset (mock_response 1700000000000000000 ''b.example'' (2 * Hour) 2)) \<and>
   (\<forall>d. LargeClockOffset d \<notin> set (Warnings (Validate NewValidator
        (mock_response 1700000000000000000 ''a.example'' (- Hour) 2)))) \<and>
   LargeClockOffset (2 * Hour) \<in> set (Warnings (Validate NewValidator
        (mock_response 1700000000000000000 ''b.example'' (2 * Hour) 2)))"
  using Validate_offset_one_hour [of "mock_response 1700000000000000000 ''a.example'' (- Hour) 2"]
        Validate_offset_one_hour [of "mock_response 1700000000000000000 ''b.example'' (2 * Hour) 2" "2 * Hour"]
  by (simp add: mock_response_def Hour_def int64_def)

section \<open>Hybrid collector: coherence\<close>

lemma coherence_tail:
  assumes "(0.050::real) \<le> d"
  shows "max 0 (min 1 (0.5 * exp (- 5 * d))) = 0.5 * exp (- d * 5)"
proof -
  define e where "e = exp (- 5 * d)"
  have e1: "e \<le> 1" unfolding e_def using assms by simp
  have e0: "0 < e" unfolding e_def by simp
  have comm: "- d * 5 = - 5 * d" by simp
  have "max 0 (min 1 (0.5 * e)) = 0.5 * e"
    using e0 e1 by (simp add: max_def min_def)
  then show ?thesis unfolding e_def comm .
qed

text \<open>
  Claim C5. With \<open>float64\<close> read as the reals, \<open>calculateCoherence a b\<close> is the piecewise
  reference at \<open>d = |a - b|\<close>: 1 below 0.001, the straight lines from 1 to 0.9, from 0.9 to
  0.7 and from 0.7 to 0.5 on the next three intervals, and \<open>0.5 * exp (- 5 d)\<close> clamped to
  \<open>[0, 1]\<close> from 0.050 on. For equal offsets the result is exactly 1.
\<close>

theorem calculateCoherence_piecewise:
  "calculateCoherence a b = coherence_spec \<bar>a - b\<bar> \<and> calculateCoherence x x = 1"
proof
  show "calculateCoherence a b = coherence_spec \<bar>a - b\<bar>"
  proof (cases "\<bar>a - b\<bar> < 0.050")
    case True
    then show ?thesis
      by (simp add: calculateCoherence_def coherence_spec_def line_through_def Let_def
          perfectThreshold_def excellentThreshold_def goodThreshold_def acceptableThreshold_def
          field_simps)
  next
    case False
    then have "0.050 \<le> \<bar>a - b\<bar>" by simp
    from coherence_tail [OF this] False show ?thesis
      by (simp add: calculateCoherence_def coherence_spec_def Let_def
          perfectThreshold_def excellentThreshold_def goodThreshold_def acceptableThreshold_def
          not_less [symmetric])
  qed
  show "calculateCoherence x x = 1"
    by (simp add: calculateCoherence_def perfectThreshold_def)
qed

section \<open>DNS cache: stale on error\<close>

text \<open>
  Claim C8. Let a call of \<open>Resolve\<close> ask the resolver, and let the resolver fail. If the
  cache holds an entry for the host name, which is then expired, the call returns the
  entry's addresses without an error and leaves the cache with that entry's \<open>ErrorCount\<close>
  incremented by one. If the cache holds no entry, the call returns the resolver's error
  and leaves the cache as it was.
\<close>

theorem DNSCache_Resolve_stale_on_error:
  assumes "resolver_asked c env hostname" "lookup env hostname = Inl err"
  shows "case cache c hostname of
           Some entry \<Rightarrow>
             DNSCache_Resolve c env hostname =
               (Inr (IPs entry),
                c\<lparr>cache := (cache c)(hostname \<mapsto> entry\<lparr>ErrorCount := ErrorCount entry + 1\<rparr>)\<rparr>)
         | None \<Rightarrow> DNSCache_Resolve c env hostname = (Inl err, c)"
  using assms
  by (auto simp: resolver_asked_def DNSCache_Resolve_def resolve_miss_def split: option.splits)

text \<open>The expired entry is served with its error count raised from 0 to 1; an empty cache
  passes the error on.\<close>

theorem DNSCache_Resolve_stale_on_error_witness:
  "resolver_asked stale_cache failing_dns ''pool.example'' \<and>
   lookup failing_dns ''pool.example'' = Inl (ErrLookup ''no such host'') \<and>
   fst (DNSCache_Resolve stale_cache failing_dns ''pool.example'')
     = Inr [''192.0.2.1'', ''192.0.2.2''] \<and>
   map_option ErrorCount
     (cache (snd (DNSCache_Resolve stale_cache failing_dns ''pool.example'')) ''pool.example'')
     = Some 1 \<and>
   resolver_asked (NewDNSCache 0 0) failing_dns ''pool.example'' \<and>
   DNSCache_Resolve (NewDNSCache 0 0) failing_dns ''pool.example''
     = (Inl (ErrLookup ''no such host''), NewDNSCache 0 0)"
  using DNSCache_Resolve_stale_on_error
          [of stale_cache failing_dns "''pool.example''" "ErrLookup ''no such host''"]
        DNSCache_Resolve_stale_on_error
          [of "NewDNSCache 0 0" failing_dns "''pool.example''" "ErrLookup ''no such host''"]
  by (simp add: resolver_asked_def NewDNSCache_def stale_cache_def failing_dns_def)

section \<open>Pool: total servers\<close>

lemma query_servers_TotalServers:
  "query_servers p env i servers response = (response', e) \<Longrightarrow>
   TotalServers response' = TotalServers response \<and> Servers response' = Servers response"
proof (induction p env i servers response rule: query_servers.induct)
  case (1 p env i response)
  then show ?case by simp
next
  case (2 p env i server rest response)
  then show ?case
    by (auto simp: Let_def split: if_splits sum.splits)
qed

lemma take_first_responses_TotalServers:
  "TotalServers (take_first_responses results response) = TotalServers response \<and>
   Servers (take_first_responses results response) = Servers response"
  unfolding take_first_responses_def
  by (induction results arbitrary: response) (auto split: list.splits)

lemma set_best_offset_TotalServers:
  "TotalServers (set_best_offset response) = TotalServers response \<and>
   Servers (set_best_offset response) = Servers response"
  by (simp add: set_best_offset_def)

lemma Pool_Query_keeps_servers:
  assumes "Pool_Query p env samples = ((Some resp, e), c')"
  shows "\<exists>servers. Pool_Resolve p env = (Inr servers, c') \<and>
           TotalServers resp = int (length servers) \<and> Servers resp = servers"
  using assms
  unfolding Pool_Query_def Let_def
  by (auto split: prod.splits sum.splits option.splits if_splits
      dest!: query_servers_TotalServers
      simp: take_first_responses_TotalServers set_best_offset_TotalServers)

lemma Pool_Resolve_length:
  assumes "Pool_Resolve p env = (Inr servers, c')"
  shows "int (length servers) =
     (case fst (DNSCache_Resolve (dnsCache p) (dns env) (name p)) of
        Inr ips \<Rightarrow> min (int (length ips)) (maxServers p)
      | Inl err \<Rightarrow> 1)"
  using assms unfolding Pool_Resolve_def
  by (auto split: prod.splits sum.splits if_splits)

lemma example_resolved:
  "fst (DNSCache_Resolve (dnsCache example_pool) (dns example_env) (name example_pool))
     = Inr three_addresses"
  by (simp add: example_pool_def example_env_def NewPool_def NewDNSCache_def
      DNSCache_Resolve_def resolve_miss_def Let_def)

lemma example_query:
  "fst (Pool_Query example_pool example_env 1) =
     (Some \<lparr>PoolName = ''pool.example'', Servers = [''192.0.2.1'', ''192.0.2.2''],
            pr_Responses = [mock_response 1700000000000000000 ''192.0.2.1'' (5 * Millisecond) 2,
                            mock_response 1700000000000000000 ''192.0.2.2'' (5 * Millisecond) 2],
            ActiveServers = 2, TotalServers = 2, BestOffset = 5 * Millisecond,
            DNSResolution = 2 * Millisecond\<rparr>, None)"
  by (simp add: Pool_Query_def Pool_Resolve_def example_pool_def example_env_def NewPool_def
      NewDNSCache_def DNSCache_Resolve_def resolve_miss_def three_addresses_def
      selectServersByStrategy_def set_best_offset_def findBestOffset_def mock_response_def
      AbsDuration_def Millisecond_def Let_def)

text \<open>
  Claim C7, as amended. For every pool query that returns a response and no error,
  \<open>TotalServers\<close> is the length of the server list that \<open>Resolve\<close> returned, that is the
  list after its truncation to \<open>maxServers\<close> and before the choice by strategy: the
  smaller of the number of resolved addresses and \<open>maxServers\<close>, or 1 when the fallback
  server stands in for a failed resolution.
\<close>

theorem Pool_Query_total_servers:
  assumes "Pool_Query p env samples = ((Some resp, None), c')"
  shows "TotalServers resp =
     (case fst (DNSCache_Resolve (dnsCache p) (dns env) (name p)) of
        Inr ips \<Rightarrow> min (int (length ips)) (maxServers p)
      | Inl err \<Rightarrow> 1) \<and>
     TotalServers resp = int (length (Servers resp))"
  using Pool_Query_keeps_servers [OF assms] Pool_Resolve_length by auto

text \<open>The claim as stated fails for the pool limited to two servers: its name resolves to
  three addresses, the query succeeds, and \<open>TotalServers\<close> is 2.\<close>

theorem Pool_Query_total_servers_counterexample:
  "fst (DNSCache_Resolve (dnsCache example_pool) (dns example_env) (name example_pool))
     = Inr three_addresses \<and>
   length three_addresses = 3 \<and>
   snd (fst (Pool_Query example_pool example_env 1)) = None \<and>
   map_option TotalServers (fst (fst (Pool_Query example_pool example_env 1))) = Some 2"
  by (simp add: example_resolved example_query three_addresses_def)

theorem Pool_Query_total_servers_witness:
  "Pool_Query example_pool example_env 1 =
     ((Some (the (fst (fst (Pool_Query example_pool example_env 1)))), None),
      snd (Pool_Query example_pool example_env 1)) \<and>
   TotalServers (the (fst (fst (Pool_Query example_pool example_env 1)))) = 2 \<and>
   maxServers example_pool = 2"
proof -
  have h: "Pool_Query example_pool example_env 1 =
     ((Some (the (fst (fst (Pool_Query example_pool example_env 1)))), None),
      snd (Pool_Query example_pool example_env 1))"
    by (simp add: prod_eq_iff example_query)
  have "maxServers example_pool = 2" by (simp add: example_pool_def NewPool_def)
  with Pool_Query_total_servers [OF h] h show ?thesis
    by (simp add: example_resolved three_addresses_def)
qed

section \<open>Adaptive sampler\<close>

lemma Duration_of_float_Seconds: "Duration_of_float (Seconds d * real_of_int Second) = d"
  by (simp add: Duration_of_float_def Seconds_def Second_def)

lemma median_three: "median [x, x, x] = x"
  by (simp add: median_def)

lemma MedianOffset_three: "MedianOffset (CalculateStatistics [r, r, r] n) = Offset r"
  by (simp add: CalculateStatistics_def Let_def median_three Duration_of_float_Seconds)

lemma queryLoop_steady:
  "queryLoop never_done drift_wire i k acc issued =
     (if k = 0 \<and> acc = [] then (([], Some (QuerierError ''all NTP queries failed'')), issued)
      else ((acc @ replicate k drift_response, None), issued + k))"
  by (induction k arbitrary: i acc issued)
     (auto simp: replicate_app_Cons_same never_done_def drift_wire_def)

lemma steady_querier_replicate:
  "0 < count \<Longrightarrow> steady_querier n c server count = (replicate (nat count) drift_response, None)"
  by (simp add: steady_querier_def Client_QueryMultiple_def queryLoop_steady)

lemma deadline_first:
  "deadline_querier 0 c server 3 = ([drift_response, drift_response, drift_response], None)"
proof -
  have "deadline_querier 0 c server 3 = (replicate 3 drift_response, None)"
    by (simp add: deadline_querier_def Client_QueryMultiple_def queryLoop_steady)
  then show ?thesis by (simp add: eval_nat_numeral)
qed

lemma deadline_second:
  "Client_QueryMultiple done_after_one drift_wire 7 = (([drift_response], Some ErrCtx), 1)"
  by (simp add: Client_QueryMultiple_def done_after_one_def drift_wire_def eval_nat_numeral)

lemma drift_median:
  "AbsDuration (MedianOffset (CalculateStatistics
      [drift_response, drift_response, drift_response] n)) = 80 * Millisecond"
proof -
  have "Offset drift_response = 80 * Millisecond"
    by (simp add: drift_response_def mock_response_def)
  then show ?thesis
    unfolding MedianOffset_three by (simp add: AbsDuration_def Millisecond_def)
qed

text \<open>
  Claim C6, as amended. Let the first batch come back without error and non-empty, with
  the absolute median offset above the drift threshold, and let the elapsed time be below
  the maximum duration (the two subtractions fitting in 64 bits). Then \<open>Sample\<close> makes
  exactly one more call of \<open>QueryMultiple\<close>, for \<open>HighDriftSamples - DefaultSamples\<close>
  samples, under a context whose timeout is the remaining budget. It returns the first
  batch followed by the second when that call returns no error, and the first batch alone
  when it returns an error, whatever responses came with the error.
\<close>

theorem Sample_high_drift:
  assumes first: "q 0 c server (DefaultSamples config) = (responses, None)"
    and nonempty: "responses \<noteq> []"
    and drift: "AbsDuration (MedianOffset (CalculateStatistics responses (DefaultSamples config)))
                  > DriftThreshold config"
    and budget: "elapsed < MaxDuration config"
    and range: "int64 (HighDriftSamples config - DefaultSamples config)"
               "int64 (MaxDuration config - elapsed)"
    and second: "q 1 (WithTimeout c (MaxDuration config - elapsed)) server
                   (HighDriftSamples config - DefaultSamples config) = (extra, err)"
  shows "Sample config q elapsed c server =
     ((if err = None then responses @ extra else responses, None),
      [(c, server, DefaultSamples config),
       (WithTimeout c (MaxDuration config - elapsed), server,
        HighDriftSamples config - DefaultSamples config)])"
  using assms by (auto simp: Sample_def Let_def wrap64_id)

text \<open>The scenario of the specification: after one second the first three samples show a
  median of 80 ms; seven more are requested with a timeout of 29 s, the wire client
  issues seven queries, and ten samples are returned.\<close>

theorem Sample_high_drift_witness:
  "steady_querier 0 Ctx ''drift.example'' (DefaultSamples scenario_config) =
     ([drift_response, drift_response, drift_response], None) \<and>
   AbsDuration (MedianOffset (CalculateStatistics
      [drift_response, drift_response, drift_response] (DefaultSamples scenario_config)))
     = 80 * Millisecond \<and>
   DriftThreshold scenario_config = 50 * Millisecond \<and>
   1 * Second < MaxDuration scenario_config \<and>
   int64 (HighDriftSamples scenario_config - DefaultSamples scenario_config) \<and>
   int64 (MaxDuration scenario_config - 1 * Second) \<and>
   Client_QueryMultiple never_done drift_wire 7 = ((replicate 7 drift_response, None), 7) \<and>
   Sample scenario_config steady_querier (1 * Second) Ctx ''drift.example'' =
     ((replicate 10 drift_response, None),
      [(Ctx, ''drift.example'', 3), (WithTimeout Ctx (29 * Second), ''drift.example'', 7)])"
proof -
  let ?r = drift_response
  have h1: "steady_querier 0 Ctx ''drift.example'' (DefaultSamples scenario_config) =
      ([?r, ?r, ?r], None)"
    by (simp add: scenario_config_def steady_querier_replicate eval_nat_numeral)
  have h2: "[?r, ?r, ?r] \<noteq> []" by simp
  note abs = drift_median [of "DefaultSamples scenario_config"]
  have thr: "DriftThreshold scenario_config = 50 * Millisecond"
    by (simp add: scenario_config_def)
  have h3: "AbsDuration (MedianOffset (CalculateStatistics [?r, ?r, ?r]
      (DefaultSamples scenario_config))) > DriftThreshold scenario_config"
    unfolding abs thr by (simp add: Millisecond_def)
  have h4: "1 * Second < MaxDuration scenario_config"
    by (simp add: scenario_config_def Second_def)
  have h5: "int64 (HighDriftSamples scenario_config - DefaultSamples scenario_config)"
    by (simp add: scenario_config_def int64_def)
  have h6: "int64 (MaxDuration scenario_config - 1 * Second)"
    by (simp add: scenario_config_def int64_def Second_def)
  have h7: "steady_querier 1 (WithTimeout Ctx (MaxDuration scenario_config - 1 * Second))
      ''drift.example'' (HighDriftSamples scenario_config - DefaultSamples scenario_config)
      = (replicate 7 ?r, None)"
    by (simp add: scenario_config_def steady_querier_replicate)
  have wire: "Client_QueryMultiple never_done drift_wire 7 = ((replicate 7 ?r, None), 7)"
    by (simp add: Client_QueryMultiple_def queryLoop_steady)
  have app: "[?r, ?r, ?r] @ replicate 7 ?r = replicate 10 ?r"
    by (simp add: eval_nat_numeral)
  have args: "MaxDuration scenario_config - 1 * Second = 29 * Second"
     "HighDriftSamples scenario_config - DefaultSamples scenario_config = 7"
     "DefaultSamples scenario_config = 3"
    by (simp_all add: scenario_config_def Second_def)
  have "Sample scenario_config steady_querier (1 * Second) Ctx ''drift.example'' =
     ((replicate 10 ?r, None),
      [(Ctx, ''drift.example'', 3), (WithTimeout Ctx (29 * Second), ''drift.example'', 7)])"
    using Sample_high_drift [where q = steady_querier and c = Ctx and config = scenario_config
        and elapsed = "1 * Second", OF h1 h2 h3 h4 h5 h6 h7]
    unfolding args app by (simp add: scenario_config_def)
  with h1 abs thr h4 h5 h6 wire show ?thesis by blast
qed

text \<open>The claim as stated fails when the deadline of the remaining budget fires during the
  second batch: the wire client has issued one query of the seven and returns its one
  response together with the context's error; \<open>Sample\<close> returns the first three responses
  only, not the concatenation of both batches.\<close>

theorem Sample_high_drift_counterexample:
  "deadline_querier 0 Ctx ''drift.example'' 3 =
     ([drift_response, drift_response, drift_response], None) \<and>
   AbsDuration (MedianOffset (CalculateStatistics
      [drift_response, drift_response, drift_response] (DefaultSamples scenario_config)))
     = 80 * Millisecond \<and>
   DriftThreshold scenario_config = 50 * Millisecond \<and>
   1 * Second < MaxDuration scenario_config \<and>
   deadline_querier 1 (WithTimeout Ctx (29 * Second)) ''drift.example'' 7 =
     ([drift_response], Some ErrCtx) \<and>
   snd (Client_QueryMultiple done_after_one drift_wire 7) = 1 \<and>
   Sample scenario_config deadline_querier (1 * Second) Ctx ''drift.example'' =
     (([drift_response, drift_response, drift_response], None),
      [(Ctx, ''drift.example'', 3), (WithTimeout Ctx (29 * Second), ''drift.example'', 7)]) \<and>
   fst (fst (Sample scenario_config deadline_querier (1 * Second) Ctx ''drift.example'')) \<noteq>
     [drift_response, drift_response, drift_response] @ [drift_response]"
proof -
  let ?r = drift_response
  note abs = drift_median [of "DefaultSamples scenario_config"]
  have abs': "AbsDuration (MedianOffset (CalculateStatistics [?r, ?r, ?r] 3)) = 80000000"
    using abs by (simp add: scenario_config_def Millisecond_def)
  have thr: "DriftThreshold scenario_config = 50 * Millisecond"
    by (simp add: scenario_config_def)
  have h4: "1 * Second < MaxDuration scenario_config"
    by (simp add: scenario_config_def Second_def)
  have d2: "deadline_querier 1 c ''drift.example'' 7 = ([?r], Some ErrCtx)" for c
    by (simp add: deadline_querier_def deadline_second)
  have s: "Sample scenario_config deadline_querier (1 * Second) Ctx ''drift.example'' =
     (([?r, ?r, ?r], None),
      [(Ctx, ''drift.example'', 3), (WithTimeout Ctx (29 * Second), ''drift.example'', 7)])"
    by (simp add: Sample_def scenario_config_def deadline_first d2 abs' wrap64_def
        Millisecond_def Second_def del: One_nat_def)
  have "snd (Client_QueryMultiple done_after_one drift_wire 7) = 1"
    by (simp add: deadline_second)
  with abs thr h4 deadline_first d2 s show ?thesis by simp
qed

section \<open>Circuit breaker\<close>

lemma protected_open:
  assumes "breakers cb server = Some b" "b_state b = StateOpen" "b_expiry b = Some e" "t \<le> e"
  shows "protected cb t server out = (Inl (ErrCircuitOpen server ErrOpenState), cb)"
proof -
  have upd: "(breakers cb)(server \<mapsto> b) = breakers cb"
    using assms(1) by (simp add: fun_upd_idem)
  have "currentState (cb_config cb) b t = b"
    using assms by (simp add: currentState_def expired_def)
  then have "beforeRequest (cb_config cb) b t = (Some ErrOpenState, b)"
    using assms(2) by (simp add: beforeRequest_def)
  then show ?thesis
    using assms(1) by (simp add: protected_def getBreakerForServer_def breaker_Execute_def upd)
qed

lemma readyToTrip_threshold:
  "readyToTrip (NewCircuitBreakerConfigWithThreshold mr interval timeout th) counts \<longleftrightarrow>
     Requests counts \<ge> 3 \<and> real (TotalFailures counts) / real (Requests counts) \<ge> th"
  by (simp add: readyToTrip_def NewCircuitBreakerConfigWithThreshold_def Let_def)

text \<open>A failing query on a closed breaker whose interval has not passed, and on a server
  seen for the first time.\<close>

lemma protected_closed_failure:
  assumes "breakers cb server = Some b" "b_state b = StateClosed" "\<not> expired b t"
  shows "snd (protected cb t server (Inl err)) =
     cb\<lparr>breakers := (breakers cb)(server \<mapsto>
            (let counts = onFailure (onRequest (b_counts b))
             in if readyToTrip (cb_config cb) counts then setState (cb_config cb) StateOpen t
                else b\<lparr>b_counts := counts\<rparr>)),
         wire_calls := wire_calls cb @ [server]\<rparr>"
  using assms
  by (simp add: protected_def getBreakerForServer_def breaker_Execute_def beforeRequest_def
      currentState_def afterRequest_def Let_def)

lemma protected_new_failure:
  assumes "breakers cb server = None"
  shows "snd (protected cb t server (Inl err)) =
     cb\<lparr>breakers := (breakers cb)(server \<mapsto>
            (let b = NewCircuitBreaker (cb_config cb) t; counts = onFailure (onRequest (b_counts b))
             in if readyToTrip (cb_config cb) counts then setState (cb_config cb) StateOpen t
                else b\<lparr>b_counts := counts\<rparr>)),
         wire_calls := wire_calls cb @ [server]\<rparr>"
  using assms
  by (simp add: protected_def getBreakerForServer_def breaker_Execute_def beforeRequest_def
      currentState_def afterRequest_def Let_def NewCircuitBreaker_def setState_def expired_def)

lemma three_failures_open:
  assumes mr: "0 < mr"
    and q0: "querier 0 server = Inl e0" and q1: "querier 1 server = Inl e1"
    and q2: "querier 2 server = Inl e2"
    and t12: "t1 \<le> t2" and t23: "t2 \<le> t3"
    and iv: "interval \<le> 0 \<or> t3 \<le> t1 + interval"
  defines "cfg \<equiv> NewCircuitBreakerConfigWithThreshold mr interval (30 * Second) 0.6"
  defines "cb0 \<equiv> NewCircuitBreakerClient cfg"
  defines "cb1 \<equiv> snd (CB_Query cb0 querier t1 server)"
  defines "cb2 \<equiv> snd (CB_Query cb1 querier t2 server)"
  defines "cb3 \<equiv> snd (CB_Query cb2 querier t3 server)"
  shows "breakers cb3 server = Some (setState cfg StateOpen t3) \<and>
         wire_calls cb3 = [server, server, server]"
proof -
  have c0: "cb_config cb0 = cfg" "breakers cb0 server = None" "wire_calls cb0 = []"
    using mr by (simp_all add: cb0_def NewCircuitBreakerClient_def cfg_def
        NewCircuitBreakerConfigWithThreshold_def)
  have rt: "\<And>counts. readyToTrip cfg counts \<longleftrightarrow>
      Requests counts \<ge> 3 \<and> real (TotalFailures counts) / real (Requests counts) \<ge> 0.6"
    unfolding cfg_def by (rule readyToTrip_threshold)
  have ivl: "Interval cfg = interval"
    by (simp add: cfg_def NewCircuitBreakerConfigWithThreshold_def)
  let ?exp = "if interval \<le> 0 then None else Some (t1 + interval)"
  let ?b1 = "\<lparr>b_state = StateClosed,
             b_counts = zero_Counts\<lparr>Requests := 1, TotalFailures := 1, ConsecutiveFailures := 1\<rparr>,
             b_expiry = ?exp\<rparr>"
  have cb1: "cb1 = cb0\<lparr>breakers := (breakers cb0)(server \<mapsto> ?b1), wire_calls := [server]\<rparr>"
    by (simp add: cb1_def CB_Query_def q0 protected_new_failure [OF c0(2)] c0 Let_def rt ivl
        NewCircuitBreaker_def setState_def onFailure_def onRequest_def zero_Counts_def)
  have c1: "cb_config cb1 = cfg" "breakers cb1 server = Some ?b1" "wire_calls cb1 = [server]"
    by (simp_all add: cb1 c0)
  have ne2: "\<not> expired ?b1 t2" using iv t12 t23 by (auto simp: expired_def)
  let ?b2 = "\<lparr>b_state = StateClosed,
             b_counts = zero_Counts\<lparr>Requests := 2, TotalFailures := 2, ConsecutiveFailures := 2\<rparr>,
             b_expiry = ?exp\<rparr>"
  have cb2: "cb2 = cb1\<lparr>breakers := (breakers cb1)(server \<mapsto> ?b2),
                        wire_calls := [server, server]\<rparr>"
    using q1
    by (simp add: cb2_def CB_Query_def protected_closed_failure [OF c1(2) _ ne2] c1 Let_def rt
        eval_nat_numeral onFailure_def onRequest_def zero_Counts_def)
  have c2: "cb_config cb2 = cfg" "breakers cb2 server = Some ?b2"
      "wire_calls cb2 = [server, server]"
    by (simp_all add: cb2 c1)
  have ne3: "\<not> expired ?b2 t3" using iv t12 t23 by (auto simp: expired_def)
  have cb3: "cb3 = cb2\<lparr>breakers := (breakers cb2)(server \<mapsto> setState cfg StateOpen t3),
                        wire_calls := [server, server, server]\<rparr>"
    using q2
    by (simp add: cb3_def CB_Query_def protected_closed_failure [OF c2(2) _ ne3] c2 Let_def rt
        eval_nat_numeral onFailure_def onRequest_def zero_Counts_def)
  show ?thesis by (simp add: cb3)
qed

text \<open>
  Claim C3. If the breaker of a server is open and the clock has not passed its expiry,
  \<open>Query\<close> and \<open>QueryMultiple\<close> fail with the circuit-open error wrapping \<open>ErrOpenState\<close> and
  leave the client as it was: the wrapped querier is not invoked and the breaker stays
  open. In particular, with a failure threshold of 0.6 and a timeout of 30 s, three
  failing queries to a server not seen before, the third no later than the interval after
  the first, leave its breaker open after three invocations of the wrapped querier, and
  a fourth query at most 30 s after the third is rejected in that way.
\<close>

theorem CircuitBreaker_open_rejects:
  "(breakers cb server = Some b \<and> b_state b = StateOpen \<and> b_expiry b = Some e \<and> t \<le> e \<longrightarrow>
      CB_Query cb querier t server = (Inl (ErrCircuitOpen server ErrOpenState), cb) \<and>
      CB_QueryMultiple cb mquerier t server samples =
        (Inl (ErrCircuitOpen server ErrOpenState), cb)) \<and>
   (0 < mr \<and> querier 0 server = Inl e0 \<and> querier 1 server = Inl e1 \<and>
    querier 2 server = Inl e2 \<and> t1 \<le> t2 \<and> t2 \<le> t3 \<and>
    (interval \<le> 0 \<or> t3 \<le> t1 + interval) \<and> t4 \<le> t3 + 30 * Second \<longrightarrow>
      (let cb0 = NewCircuitBreakerClient
                   (NewCircuitBreakerConfigWithThreshold mr interval (30 * Second) 0.6);
           cb1 = snd (CB_Query cb0 querier t1 server);
           cb2 = snd (CB_Query cb1 querier t2 server);
           cb3 = snd (CB_Query cb2 querier t3 server)
       in map_option b_state (breakers cb3 server) = Some StateOpen \<and>
          wire_calls cb3 = [server, server, server] \<and>
          CB_Query cb3 querier t4 server = (Inl (ErrCircuitOpen server ErrOpenState), cb3)))"
proof (intro conjI impI)
  assume "breakers cb server = Some b \<and> b_state b = StateOpen \<and> b_expiry b = Some e \<and> t \<le> e"
  then show "CB_Query cb querier t server = (Inl (ErrCircuitOpen server ErrOpenState), cb)"
    and "CB_QueryMultiple cb mquerier t server samples =
        (Inl (ErrCircuitOpen server ErrOpenState), cb)"
    by (simp_all add: CB_Query_def CB_QueryMultiple_def protected_open)
next
  assume h: "0 < mr \<and> querier 0 server = Inl e0 \<and> querier 1 server = Inl e1 \<and>
    querier 2 server = Inl e2 \<and> t1 \<le> t2 \<and> t2 \<le> t3 \<and>
    (interval \<le> 0 \<or> t3 \<le> t1 + interval) \<and> t4 \<le> t3 + 30 * Second"
  define cfg where "cfg = NewCircuitBreakerConfigWithThreshold mr interval (30 * Second) 0.6"
  define cb3 where "cb3 = snd (CB_Query (snd (CB_Query (snd (CB_Query
      (NewCircuitBreakerClient cfg) querier t1 server)) querier t2 server)) querier t3 server)"
  from h have tripped: "breakers cb3 server = Some (setState cfg StateOpen t3)"
    and calls: "wire_calls cb3 = [server, server, server]"
    unfolding cb3_def cfg_def
    using three_failures_open [of mr querier server e0 e1 e2 t1 t2 t3 interval] by simp_all
  have tm: "Timeout cfg = 30 * Second"
    by (simp add: cfg_def NewCircuitBreakerConfigWithThreshold_def)
  have "protected cb3 t4 server (querier (length (wire_calls cb3)) server) =
      (Inl (ErrCircuitOpen server ErrOpenState), cb3)"
    using h by (intro protected_open [OF tripped, of "t3 + 30 * Second"])
      (simp_all add: setState_def tm)
  then show "let cb0 = NewCircuitBreakerClient
                   (NewCircuitBreakerConfigWithThreshold mr interval (30 * Second) 0.6);
           cb1 = snd (CB_Query cb0 querier t1 server);
           cb2 = snd (CB_Query cb1 querier t2 server);
           cb3 = snd (CB_Query cb2 querier t3 server)
       in map_option b_state (breakers cb3 server) = Some StateOpen \<and>
          wire_calls cb3 = [server, server, server] \<and>
          CB_Query cb3 querier t4 server = (Inl (ErrCircuitOpen server ErrOpenState), cb3)"
    using tripped calls
    unfolding Let_def cb3_def [symmetric] cfg_def [symmetric]
    by (simp add: CB_Query_def setState_def)
qed

text \<open>Three timeouts against \<open>bad.example\<close> at 0 s, 1 s and 2 s open its breaker until
  32 s; queries at 12 s are rejected and the wrapped querier has been invoked three
  times.\<close>

theorem CircuitBreaker_open_rejects_witness:
  "failing_querier 0 ''bad.example'' = Inl (QuerierError ''i/o timeout'') \<and>
   failing_querier 1 ''bad.example'' = Inl (QuerierError ''i/o timeout'') \<and>
   failing_querier 2 ''bad.example'' = Inl (QuerierError ''i/o timeout'') \<and>
   (0::int) \<le> 1 * Second \<and> 1 * Second \<le> 2 * Second \<and> 2 * Second \<le> 0 + 60 * Second \<and>
   12 * Second \<le> 2 * Second + 30 * Second \<and>
   map_option b_state (breakers tripped_client ''bad.example'') = Some StateOpen \<and>
   map_option b_expiry (breakers tripped_client ''bad.example'') = Some (Some (32 * Second)) \<and>
   wire_calls tripped_client = [''bad.example'', ''bad.example'', ''bad.example''] \<and>
   CB_Query tripped_client failing_querier (12 * Second) ''bad.example'' =
     (Inl (ErrCircuitOpen ''bad.example'' ErrOpenState), tripped_client) \<and>
   CB_QueryMultiple tripped_client failing_multi_querier (12 * Second) ''bad.example'' 3 =
     (Inl (ErrCircuitOpen ''bad.example'' ErrOpenState), tripped_client)"
proof -
  define cfg where "cfg = NewCircuitBreakerConfigWithThreshold 3 (60 * Second) (30 * Second) 0.6"
  have q: "failing_querier 0 ''bad.example'' = Inl (QuerierError ''i/o timeout'')"
      "failing_querier 1 ''bad.example'' = Inl (QuerierError ''i/o timeout'')"
      "failing_querier 2 ''bad.example'' = Inl (QuerierError ''i/o timeout'')"
    by (simp_all add: failing_querier_def)
  have times: "(0::int) \<le> 1 * Second" "1 * Second \<le> 2 * Second"
      "2 * Second \<le> 0 + 60 * Second" "12 * Second \<le> 2 * Second + 30 * Second"
    by (simp_all add: Second_def)
  have b: "breakers tripped_client ''bad.example'' = Some (setState cfg StateOpen (2 * Second))"
    unfolding tripped_client_def Let_def cfg_def
    using three_failures_open [of 3 failing_querier "''bad.example''" _ _ _ 0 "1 * Second"
        "2 * Second" "60 * Second", OF _ q times(1,2)] times(3)
    by simp
  have st: "b_state (setState cfg StateOpen (2 * Second)) = StateOpen"
    and ex: "b_expiry (setState cfg StateOpen (2 * Second)) = Some (32 * Second)"
    by (simp_all add: setState_def cfg_def NewCircuitBreakerConfigWithThreshold_def Second_def)
  have le: "12 * Second \<le> 32 * Second" by (simp add: Second_def)
  note part1 = CircuitBreaker_open_rejects [where cb = tripped_client
      and server = "''bad.example''"
      and b = "setState cfg StateOpen (2 * Second)" and e = "32 * Second" and t = "12 * Second"
      and querier = failing_querier and mquerier = failing_multi_querier and samples = 3,
      THEN conjunct1, rule_format, OF conjI [OF b conjI [OF st conjI [OF ex le]]]]
  note part2 = CircuitBreaker_open_rejects [where querier = failing_querier
      and server = "''bad.example''" and mr = 3
      and interval = "60 * Second" and ?t1.0 = 0 and ?t2.0 = "1 * Second"
      and ?t3.0 = "2 * Second" and ?t4.0 = "12 * Second",
      THEN conjunct2, rule_format, unfolded Let_def, folded tripped_client_def [unfolded Let_def]]
  have "wire_calls tripped_client = [''bad.example'', ''bad.example'', ''bad.example'']"
    using part2 q times by simp
  with q times b st ex part1 show ?thesis by simp
qed

end
